theory Spec2Isabelle
  imports Complex_Main "HOL-Library.Finite_Map" "HOL-Library.Word"
begin

section \<open>go-snowboy: hotword registry, routing and silence accumulation\<close>

text \<open>
  A shallow embedding of \<^verbatim>\<open>snowboy.go\<close>. The Go methods on \<^verbatim>\<open>*Detector\<close> mutate the
  receiver; here each of them takes the detector and returns the updated one. A Go
  \<^verbatim>\<open>error\<close> result is an \<open>error option\<close> (\<open>None\<close> is \<^verbatim>\<open>nil\<close>), a run-time panic is the
  left injection of a sum.
\<close>

subsection \<open>Integers of the Go code\<close>

text \<open>
  \<^verbatim>\<open>int\<close> and \<^verbatim>\<open>time.Duration\<close> (an \<^verbatim>\<open>int64\<close> of nanoseconds) are 64-bit two's complement
  on the platforms the swig binding builds for. They are modelled as \<open>int\<close> with the
  wrap-around written out; \<^verbatim>\<open>/\<close> truncates towards zero.
\<close>

definition wrap64 :: "int \<Rightarrow> int" where
  "wrap64 x = (x + 2 ^ 63) mod 2 ^ 64 - 2 ^ 63"

definition add64 :: "int \<Rightarrow> int \<Rightarrow> int" where
  "add64 a b = wrap64 (a + b)"

definition mul64 :: "int \<Rightarrow> int \<Rightarrow> int" where
  "mul64 a b = wrap64 (a * b)"

text \<open>The caller checks the divisor: Go panics on a zero divisor.\<close>

definition quo64 :: "int \<Rightarrow> int \<Rightarrow> int" where
  "quo64 a b = wrap64 (sgn a * sgn b * (\<bar>a\<bar> div \<bar>b\<bar>))"

text \<open>\<^verbatim>\<open>time.Second\<close>, in nanoseconds.\<close>

definition Second :: int where
  "Second = 1000000000"

subsection \<open>Result codes and errors\<close>

text \<open>
  \<^verbatim>\<open>type snowboyResult int\<close>. The map keys built by \<^verbatim>\<open>len(d.handlers) + 1\<close> cannot
  overflow (a map never holds that many entries), so result codes are plain \<open>int\<close>.
\<close>

type_synonym snowboyResult = int

definition snowboyResultSilence :: snowboyResult where
  "snowboyResultSilence = - 2"

definition snowboyResultError :: snowboyResult where
  "snowboyResultError = - 1"

definition snowboyResultNoDetection :: snowboyResult where
  "snowboyResultNoDetection = 0"

text \<open>
  The error values of the package (\<^verbatim>\<open>NoHandler\<close>, \<^verbatim>\<open>SnowboyLibraryError\<close>, the
  \<^verbatim>\<open>errors.New("snowboy not initialize")\<close> of \<^verbatim>\<open>Close\<close>), \<^verbatim>\<open>io.EOF\<close>, and any other error a
  reader returns.
\<close>

datatype error = NoHandler | SnowboyLibraryError | NotInitialize | EOF | ReadFailure string

datatype panic = NilDereference | DivideByZero

subsection \<open>Strings\<close>

text \<open>
  \<^verbatim>\<open>strings.TrimRight(s, cutset)\<close> removes every trailing character that occurs in
  \<open>cutset\<close>. The cutset used by the code is ASCII, so working on bytes agrees with Go's
  rune-wise scan.
\<close>

definition TrimRight :: "string \<Rightarrow> string \<Rightarrow> string" where
  "TrimRight s cutset = rev (dropWhile (\<lambda>c. c \<in> set cutset) (rev s))"

text \<open>
  \<^verbatim>\<open>strings.Split(s, sep)\<close> for a one-character separator: the pieces between the
  separators, \<open>[s]\<close> when there is none (also for the empty string).
\<close>

fun Split :: "string \<Rightarrow> char \<Rightarrow> string list" where
  "Split [] sep = [[]]"
| "Split (c # cs) sep =
     (if c = sep then [] # Split cs sep
      else (case Split cs sep of [] \<Rightarrow> [[c]] | p # ps \<Rightarrow> (c # p) # ps))"

subsection \<open>Hotwords\<close>

text \<open>\<^verbatim>\<open>Sensitivity\<close> is a \<^verbatim>\<open>float32\<close>; its type is left abstract (\<open>'g\<close>).\<close>

record 'g Hotword =
  Model :: string
  Sensitivity :: 'g
  Name :: string

text \<open>
  \<^verbatim>\<open>nameParts[len(nameParts) - 1]\<close>: \<open>Split\<close> never returns the empty list (lemma
  \<open>Split_not_Nil\<close>), so the index is always in range.
\<close>

definition NewHotword :: "string \<Rightarrow> 'g \<Rightarrow> 'g Hotword" where
  "NewHotword model sensitivity =
     (let name = TrimRight model ''.umdl'';
          nameParts = Split name (CHR ''/'')
      in \<lparr>Model = model, Sensitivity = sensitivity,
          Name = nameParts ! (length nameParts - 1)\<rparr>)"

text \<open>
  The derivation as the specification words it: strip the extension as a trailing
  suffix if present, then take the final path segment.
\<close>

definition stripSuffix :: "string \<Rightarrow> string \<Rightarrow> string" where
  "stripSuffix s suf =
     (if length suf \<le> length s \<and> drop (length s - length suf) s = suf
      then take (length s - length suf) s else s)"

definition finalSegment :: "string \<Rightarrow> string" where
  "finalSegment s = rev (takeWhile (\<lambda>c. c \<noteq> CHR ''/'') (rev s))"

definition deriveName_spec :: "string \<Rightarrow> string" where
  "deriveName_spec modelIdentifier = finalSegment (stripSuffix modelIdentifier ''.umdl'')"

subsection \<open>Handlers\<close>

text \<open>
  \<^verbatim>\<open>Handler\<close> is an interface with the one method \<^verbatim>\<open>Detected(string)\<close>. A handler is
  opaque to the detector: it is either some implementing object or a plain function
  converted by \<^verbatim>\<open>handlerFunc\<close>; \<open>'a\<close> names the objects and functions. What a handler
  does when it is called is outside the model, the call itself is recorded (field
  \<open>invoked\<close> below). A \<^verbatim>\<open>nil\<close> handler, whose call would panic, is outside the type.
\<close>

datatype 'a Handler = Impl 'a | handlerFunc 'a

record 'a handlerKeyword =
  Handler :: "'a Handler"
  keyword :: string

subsection \<open>The recognition engine\<close>

text \<open>
  The swig package \<^verbatim>\<open>snowboydetect\<close> and \<^verbatim>\<open>strconv.FormatFloat\<close> are outside the
  repository, so they are parameters of the model. \<open>'e\<close> is the state of one native
  engine object; a call that changes the native object returns the new state.
  \<open>RunDetection e data n\<close> stands for \<^verbatim>\<open>d.raw.RunDetection(ptr, n)\<close> with \<open>ptr\<close> pointing at
  the first byte of \<open>data\<close>. \<open>FormatFloat x\<close> stands for
  \<^verbatim>\<open>strconv.FormatFloat(float64(x), 'f', 2, 64)\<close>. The integers an engine returns are Go
  \<^verbatim>\<open>int\<close>s, so they are taken to lie in the 64-bit range.
\<close>

type_synonym byte = "8 word"

record ('e, 'g) snowboydetect =
  NewSnowboyDetect :: "string \<Rightarrow> string \<Rightarrow> 'e"
  SetSensitivity :: "'e \<Rightarrow> string \<Rightarrow> 'e"
  SetAudioGain :: "'e \<Rightarrow> 'g \<Rightarrow> 'e"
  RunDetection :: "'e \<Rightarrow> byte list \<Rightarrow> int \<Rightarrow> int \<times> 'e"
  SampleRate :: "'e \<Rightarrow> int"
  NumChannels :: "'e \<Rightarrow> int"
  BitsPerSample :: "'e \<Rightarrow> int"
  DeleteSnowboyDetect :: "'e \<Rightarrow> 'e"
  FormatFloat :: "'g \<Rightarrow> string"

subsection \<open>The detector\<close>

text \<open>
  The fields of the Go struct, in its order. \<open>raw\<close> is an interface value, \<open>None\<close> while
  it is \<^verbatim>\<open>nil\<close>. A \<^verbatim>\<open>nil\<close> map and an empty map behave alike in every use the code makes of
  \<open>handlers\<close> (\<^verbatim>\<open>len\<close>, lookup, and assignment after the \<^verbatim>\<open>nil\<close> check), so both are the
  empty finite map. The last field, \<open>invoked\<close>, is not in the struct: it is the history
  of the calls \<^verbatim>\<open>h.Handler.Detected(h.keyword)\<close> made so far, oldest first.
\<close>

record ('a, 'e, 'g) Detector =
  raw :: "'e option"
  initialized :: bool
  handlers :: "(snowboyResult, 'a handlerKeyword) fmap"
  modelStr :: string
  sensitivityStr :: string
  silenceThreshold :: int
  silenceElapsed :: int
  ResourceFile :: string
  AudioGain :: 'g
  invoked :: "('a Handler \<times> string) list"

definition NewDetector :: "string \<Rightarrow> ('a, 'e, 'g::one) Detector" where
  "NewDetector resourceFile =
     \<lparr>raw = None, initialized = False, handlers = fmempty, modelStr = [],
      sensitivityStr = [], silenceThreshold = 0, silenceElapsed = 0,
      ResourceFile = resourceFile, AudioGain = 1, invoked = []\<rparr>"

text \<open>
  \<^verbatim>\<open>DeleteSnowboyDetect(d.raw)\<close> releases the native object; the field keeps referring
  to it.
\<close>

definition Close ::
  "('e, 'g) snowboydetect \<Rightarrow> ('a, 'e, 'g) Detector \<Rightarrow> error option \<times> ('a, 'e, 'g) Detector"
where
  "Close ext d =
     (if initialized d
      then (None, d\<lparr>initialized := False, raw := map_option (DeleteSnowboyDetect ext) (raw d)\<rparr>)
      else (Some NotInitialize, d))"

text \<open>\<^verbatim>\<open>len(d.handlers)\<close>\<close>

definition len :: "('k, 'v) fmap \<Rightarrow> nat" where
  "len m = fcard (fmdom m)"

definition Handle ::
  "('e, 'g) snowboydetect \<Rightarrow> 'g Hotword \<Rightarrow> 'a Handler \<Rightarrow> ('a, 'e, 'g) Detector
   \<Rightarrow> ('a, 'e, 'g) Detector"
where
  "Handle ext hotword handler d =
     (let d1 = (if len (handlers d) > 0
                then d\<lparr>modelStr := modelStr d @ '','',
                       sensitivityStr := sensitivityStr d @ '',''\<rparr>
                else d);
          d2 = d1\<lparr>modelStr := modelStr d1 @ Model hotword,
                  sensitivityStr := sensitivityStr d1 @ FormatFloat ext (Sensitivity hotword)\<rparr>
      in d2\<lparr>handlers :=
              fmupd (int (len (handlers d2)) + 1)
                \<lparr>Handler = handler, keyword = Name hotword\<rparr> (handlers d2)\<rparr>)"

definition HandleFunc ::
  "('e, 'g) snowboydetect \<Rightarrow> 'g Hotword \<Rightarrow> 'a \<Rightarrow> ('a, 'e, 'g) Detector
   \<Rightarrow> ('a, 'e, 'g) Detector"
where
  "HandleFunc ext hotword handler d = Handle ext hotword (handlerFunc handler) d"

definition HandleSilence ::
  "int \<Rightarrow> 'a Handler \<Rightarrow> ('a, 'e, 'g) Detector \<Rightarrow> ('a, 'e, 'g) Detector"
where
  "HandleSilence threshold handler d =
     (let d1 = d\<lparr>silenceThreshold := threshold\<rparr>
      in d1\<lparr>handlers :=
              fmupd snowboyResultSilence
                \<lparr>Handler = handler, keyword = ''silence''\<rparr> (handlers d1)\<rparr>)"

definition HandleSilenceFunc ::
  "int \<Rightarrow> 'a \<Rightarrow> ('a, 'e, 'g) Detector \<Rightarrow> ('a, 'e, 'g) Detector"
where
  "HandleSilenceFunc threshold handler d = HandleSilence threshold (handlerFunc handler) d"

definition initialize ::
  "('e, 'g) snowboydetect \<Rightarrow> ('a, 'e, 'g) Detector \<Rightarrow> ('a, 'e, 'g) Detector"
where
  "initialize ext d =
     (if initialized d then d
      else (let e0 = NewSnowboyDetect ext (ResourceFile d) (modelStr d);
                e1 = SetSensitivity ext e0 (sensitivityStr d);
                e2 = SetAudioGain ext e1 (AudioGain d)
            in d\<lparr>raw := Some e2, initialized := True\<rparr>))"

text \<open>Returns \<open>(sampleRate, numChannels, bitsPerSample)\<close> and the detector.\<close>

definition AudioFormat ::
  "('e, 'g) snowboydetect \<Rightarrow> ('a, 'e, 'g) Detector
   \<Rightarrow> panic + ((int \<times> int \<times> int) \<times> ('a, 'e, 'g) Detector)"
where
  "AudioFormat ext d =
     (let d1 = initialize ext d
      in (case raw d1 of
            None \<Rightarrow> Inl NilDereference
          | Some e \<Rightarrow> Inr ((SampleRate ext e, NumChannels ext e, BitsPerSample ext e), d1)))"

text \<open>\<^verbatim>\<open>h.Handler.Detected(h.keyword)\<close>, recorded in the history.\<close>

definition call :: "'a handlerKeyword \<Rightarrow> ('a, 'e, 'g) Detector \<Rightarrow> ('a, 'e, 'g) Detector" where
  "call h d = d\<lparr>invoked := invoked d @ [(Handler h, keyword h)]\<rparr>"

definition route ::
  "snowboyResult \<Rightarrow> ('a, 'e, 'g) Detector \<Rightarrow> error option \<times> ('a, 'e, 'g) Detector"
where
  "route result d =
     (if result = snowboyResultError then (Some SnowboyLibraryError, d)
      else if result \<noteq> snowboyResultNoDetection then
        (case fmlookup (handlers d) result of
           Some handlerKeyword \<Rightarrow>
             (if result = snowboyResultSilence \<and> silenceElapsed d < silenceThreshold d
              then (None, d)
              else (None, call handlerKeyword (d\<lparr>silenceElapsed := 0\<rparr>)))
         | None \<Rightarrow> (Some NoHandler, d))
      else (None, d))"

text \<open>
  \<^verbatim>\<open>len(data) * int(time.Second) / (numChannels * (bitDepth / 8) * sampleRate)\<close>;
  \<open>None\<close> is the panic of a zero divisor.
\<close>

definition dataElapseTime :: "nat \<Rightarrow> int \<times> int \<times> int \<Rightarrow> int option" where
  "dataElapseTime n fmt =
     (case fmt of (sampleRate, numChannels, bitDepth) \<Rightarrow>
        (let divisor = mul64 (mul64 numChannels (quo64 bitDepth 8)) sampleRate
         in if divisor = 0 then None
            else Some (quo64 (mul64 (int n) Second) divisor)))"

definition runDetection ::
  "('e, 'g) snowboydetect \<Rightarrow> byte list \<Rightarrow> ('a, 'e, 'g) Detector
   \<Rightarrow> panic + (snowboyResult \<times> ('a, 'e, 'g) Detector)"
where
  "runDetection ext data d =
     (if length data = 0 then Inr (0, d)
      else (case raw d of
              None \<Rightarrow> Inl NilDereference
            | Some e \<Rightarrow>
                (case RunDetection ext e data (quo64 (int (length data)) 2) of
                   (result, e') \<Rightarrow>
                     (let d1 = d\<lparr>raw := Some e'\<rparr>
                      in if result = snowboyResultSilence then
                           (case AudioFormat ext d1 of
                              Inl p \<Rightarrow> Inl p
                            | Inr (fmt, d2) \<Rightarrow>
                                (case dataElapseTime (length data) fmt of
                                   None \<Rightarrow> Inl DivideByZero
                                 | Some t \<Rightarrow>
                                     Inr (result,
                                       d2\<lparr>silenceElapsed := add64 (silenceElapsed d2) t\<rparr>)))
                         else Inr (result, d1\<lparr>silenceElapsed := 0\<rparr>)))))"

text \<open>\<^verbatim>\<open>d.route(d.runDetection(data))\<close>, as \<^verbatim>\<open>ReadAndDetect\<close> composes them.\<close>

definition detectAndRoute ::
  "('e, 'g) snowboydetect \<Rightarrow> byte list \<Rightarrow> ('a, 'e, 'g) Detector
   \<Rightarrow> panic + (error option \<times> ('a, 'e, 'g) Detector)"
where
  "detectAndRoute ext data d =
     (case runDetection ext data d of
        Inl p \<Rightarrow> Inl p
      | Inr (result, d1) \<Rightarrow> Inr (route result d1))"

subsection \<open>The streaming loop\<close>

text \<open>
  An \<^verbatim>\<open>io.Reader\<close> is modelled by what its successive \<^verbatim>\<open>Read\<close> calls answer: the bytes
  it stored at the front of the buffer (their number is \<open>n\<close>) and the error. A reader
  never stores more than the buffer holds; the rest of the buffer keeps its old
  contents.
\<close>

type_synonym read = "byte list \<times> error option"

definition Read :: "byte list \<Rightarrow> byte list \<Rightarrow> byte list" where
  "Read bytes got = take (length bytes) got @ drop (length got) bytes"

text \<open>
  The \<^verbatim>\<open>for\<close> loop of \<^verbatim>\<open>ReadAndDetect\<close>. It returns when the reader fails, at end of
  stream, on a routing error or on a panic; \<open>None\<close> says that the loop is still running
  after the reads listed (a reader that never ends keeps it running for ever).
  \<^verbatim>\<open>time.Sleep\<close> has no effect on the state.
\<close>

fun readLoop ::
  "('e, 'g) snowboydetect \<Rightarrow> byte list \<Rightarrow> read list \<Rightarrow> ('a, 'e, 'g) Detector
   \<Rightarrow> (panic + (error option \<times> ('a, 'e, 'g) Detector)) option"
where
  "readLoop ext bytes [] d = None"
| "readLoop ext bytes ((got, err) # reads) d =
     (let bytes1 = Read bytes got; n = min (length got) (length bytes)
      in (case err of
            Some e \<Rightarrow>
              (if e = EOF then Some (detectAndRoute ext bytes1 d)
               else Some (Inr (Some e, d)))
          | None \<Rightarrow>
              (if n = 0 then readLoop ext bytes1 reads d
               else (case detectAndRoute ext bytes1 d of
                       Inl p \<Rightarrow> Some (Inl p)
                     | Inr (Some e, d1) \<Rightarrow> Some (Inr (Some e, d1))
                     | Inr (None, d1) \<Rightarrow> readLoop ext bytes1 reads d1))))"

definition ReadAndDetect ::
  "('e, 'g) snowboydetect \<Rightarrow> read list \<Rightarrow> ('a, 'e, 'g) Detector
   \<Rightarrow> (panic + (error option \<times> ('a, 'e, 'g) Detector)) option"
where
  "ReadAndDetect ext data d = readLoop ext (replicate 2048 0) data (initialize ext d)"

subsection \<open>Half a second of audio, as the specification words it\<close>

text \<open>
  The specification's duration of a chunk in the engine's audio format:
  \<open>durationSeconds = byteLength / (channelCount * bytesPerSample * sampleRate)\<close>, a real
  number, with \<open>bitsPerSample / 8\<close> bytes per sample. The format is given in the order
  \<^verbatim>\<open>AudioFormat\<close> returns it.
\<close>

definition durationSeconds_spec :: "nat \<Rightarrow> int \<times> int \<times> int \<Rightarrow> real" where
  "durationSeconds_spec byteLength fmt =
     (case fmt of (sampleRate, channelCount, bitsPerSample) \<Rightarrow>
        real byteLength
          / (of_int channelCount * (of_int bitsPerSample / 8) * of_int sampleRate))"

text \<open>
  A chunk represents half a second of audio for the engine in state \<open>e\<close>: samples are
  whole bytes, the duration above is 1/2, and the chunk is short enough for
  \<^verbatim>\<open>len(data) * int(time.Second)\<close> not to overflow (less than about 9.2 GB).
\<close>

definition representsHalfSecond_spec ::
  "('e, 'g) snowboydetect \<Rightarrow> 'e \<Rightarrow> byte list \<Rightarrow> bool"
where
  "representsHalfSecond_spec ext e c \<longleftrightarrow>
     8 dvd BitsPerSample ext e
     \<and> durationSeconds_spec (length c) (SampleRate ext e, NumChannels ext e, BitsPerSample ext e)
         = 1 / 2
     \<and> int (length c) * Second < 2 ^ 63"

subsection \<open>A concrete engine and concrete detectors\<close>

text \<open>
  An engine for the examples: it answers every chunk with the same result code and keeps
  a log of the calls of \<open>RunDetection\<close>, each as the length of the slice it was handed and
  the sample count. Its audio format is 16 kHz, mono, 16 bit, so 16000 bytes are half
  a second.
\<close>

definition fixedEngine :: "int \<Rightarrow> ((nat \<times> int) list, real) snowboydetect" where
  "fixedEngine answer =
     \<lparr>NewSnowboyDetect = (\<lambda>resource models. []),
      SetSensitivity = (\<lambda>e s. e),
      SetAudioGain = (\<lambda>e g. e),
      RunDetection = (\<lambda>e data n. (answer, e @ [(length data, n)])),
      SampleRate = (\<lambda>e. 16000),
      NumChannels = (\<lambda>e. 1),
      BitsPerSample = (\<lambda>e. 16),
      DeleteSnowboyDetect = (\<lambda>e. e),
      FormatFloat = (\<lambda>x. ''0.50'')\<rparr>"

text \<open>A detector with 1.5 s of silence on its account.\<close>

definition armed :: "(nat, (nat \<times> int) list, real) Detector" where
  "armed = (NewDetector ''common.res'')\<lparr>silenceElapsed := 1500000000\<rparr>"

text \<open>An initialized detector with a silence handler and a threshold of two seconds.\<close>

definition silenceDetector :: "(nat, (nat \<times> int) list, real) Detector" where
  "silenceDetector =
     initialize (fixedEngine snowboyResultSilence)
       (HandleSilenceFunc (2 * Second) 7 (NewDetector ''common.res''))"

definition halfSecond :: "byte list" where
  "halfSecond = replicate 16000 0"

text \<open>An initialized detector with one hotword.\<close>

definition hotwordDetector :: "(nat, (nat \<times> int) list, real) Detector" where
  "hotwordDetector =
     initialize (fixedEngine 1)
       (Handle (fixedEngine 1) (NewHotword ''a/b/foo.umdl'' 0.5) (Impl 0)
          (NewDetector ''common.res''))"

section \<open>Basic facts\<close>

lemmas code_defs = snowboyResultSilence_def snowboyResultError_def snowboyResultNoDetection_def

lemma Split_not_Nil: "Split s sep \<noteq> []"
  by (induction s) (auto split: list.splits)

lemma len_fmempty: "len fmempty = 0"
  by (simp add: len_def)

lemma len_fmupd: "len (fmupd k v m) = (if k |\<in>| fmdom m then len m else Suc (len m))"
  by (simp add: len_def fcard_finsert_if)

lemma length_Read: "length (Read bytes got) = length bytes"
  by (simp add: Read_def)

lemma Read_Nil: "Read bytes got = [] \<longleftrightarrow> bytes = []"
  using length_Read [of bytes got] by (metis length_0_conv)

subsection \<open>The duration the code computes for half a second\<close>

lemma wrap64_id: "- (2 ^ 63) \<le> x \<Longrightarrow> x < 2 ^ 63 \<Longrightarrow> wrap64 x = x"
  by (simp add: wrap64_def)

lemma abs_le_mult_left: "(b :: int) \<noteq> 0 \<Longrightarrow> \<bar>a\<bar> \<le> \<bar>a * b\<bar>"
proof -
  assume "b \<noteq> 0"
  then have "1 \<le> \<bar>b\<bar>" by simp
  then have "\<bar>a\<bar> * 1 \<le> \<bar>a\<bar> * \<bar>b\<bar>" by (intro mult_left_mono) simp_all
  then show ?thesis by (simp add: abs_mult)
qed

lemma half_second_elapse:
  assumes dv: "8 dvd bd"
    and dur: "durationSeconds_spec n (sr, nc, bd) = 1 / 2"
    and bound: "int n * Second < 2 ^ 63"
  shows "0 < n \<and> dataElapseTime n (sr, nc, bd) = Some 500000000"
proof -
  from dv obtain q where bd: "bd = 8 * q" by (auto elim: dvdE)
  have real_eq: "real n / (of_int nc * of_int q * of_int sr) = 1 / 2"
    using dur by (simp add: durationSeconds_spec_def bd)
  then have nz: "(of_int nc * of_int q * of_int sr :: real) \<noteq> 0"
    by (metis div_by_0 zero_neq_one divide_eq_0_iff zero_neq_numeral)
  then have nc: "nc \<noteq> 0" and q: "q \<noteq> 0" and sr: "sr \<noteq> 0" by auto
  from real_eq nz have "2 * real n = of_int nc * of_int q * of_int sr"
    by (simp add: field_simps)
  then have "(of_int (2 * int n) :: real) = of_int (nc * q * sr)" by simp
  then have B: "nc * q * sr = 2 * int n" by (metis of_int_eq_iff)
  with nc q sr have n: "0 < n" by (cases n) auto
  from bound have nb: "2 * int n < 2 ^ 63" by (simp add: Second_def)
  have "\<bar>nc * q\<bar> \<le> \<bar>nc * q * sr\<bar>" using sr by (rule abs_le_mult_left)
  with B nb have ncq: "\<bar>nc * q\<bar> < 2 ^ 63" by simp
  have "\<bar>q\<bar> \<le> \<bar>q * nc\<bar>" using nc by (rule abs_le_mult_left)
  with ncq have qb: "\<bar>q\<bar> < 2 ^ 63" by (simp add: mult.commute)
  have q8: "quo64 bd 8 = q"
  proof -
    have "sgn bd * sgn (8 :: int) * (\<bar>bd\<bar> div \<bar>8\<bar>) = sgn q * \<bar>q\<bar>"
      by (simp add: bd sgn_mult abs_mult)
    also have "\<dots> = q" by (simp add: sgn_mult_abs)
    finally show ?thesis using qb by (simp add: quo64_def wrap64_id)
  qed
  have m1: "mul64 nc q = nc * q" using ncq by (simp add: mul64_def wrap64_id)
  have m2: "mul64 (nc * q) sr = 2 * int n" using B nb n by (simp add: mul64_def wrap64_id)
  have m3: "mul64 (int n) Second = int n * Second"
    using bound by (simp add: mul64_def wrap64_id Second_def)
  have "quo64 (int n * Second) (2 * int n) = 500000000"
    using n by (simp add: quo64_def Second_def wrap64_id)
  with q8 m1 m2 m3 n show ?thesis
    by (simp add: dataElapseTime_def)
qed

subsection \<open>What each operation leaves alone\<close>

lemma initialize_frame:
  "modelStr (initialize ext d) = modelStr d"
  "sensitivityStr (initialize ext d) = sensitivityStr d"
  "silenceElapsed (initialize ext d) = silenceElapsed d"
  "silenceThreshold (initialize ext d) = silenceThreshold d"
  "handlers (initialize ext d) = handlers d"
  "invoked (initialize ext d) = invoked d"
  "initialized (initialize ext d)"
  by (simp_all add: initialize_def Let_def)

lemma initialize_id: "initialized d \<Longrightarrow> initialize ext d = d"
  by (simp add: initialize_def)

lemma route_frame:
  "modelStr (snd (route r d)) = modelStr d"
  "sensitivityStr (snd (route r d)) = sensitivityStr d"
  "raw (snd (route r d)) = raw d"
  "initialized (snd (route r d)) = initialized d"
  "handlers (snd (route r d)) = handlers d"
  "silenceThreshold (snd (route r d)) = silenceThreshold d"
  by (simp_all add: route_def call_def split: option.splits)

lemma route_silenceElapsed:
  "silenceElapsed (snd (route r d)) = silenceElapsed d \<or> silenceElapsed (snd (route r d)) = 0"
  by (simp add: route_def call_def split: option.splits)

lemma Handle_strings:
  "modelStr (Handle ext hw h d)
     = modelStr d @ (if 0 < len (handlers d) then '','' else []) @ Model hw"
  "sensitivityStr (Handle ext hw h d)
     = sensitivityStr d @ (if 0 < len (handlers d) then '','' else [])
         @ FormatFloat ext (Sensitivity hw)"
  by (simp_all add: Handle_def Let_def)

lemma HandleSilence_frame:
  "(HandleSilence t h d)\<lparr>handlers := handlers d, silenceThreshold := silenceThreshold d\<rparr> = d"
  by (simp add: HandleSilence_def Let_def)

lemma Close_frame:
  "modelStr (snd (Close ext d)) = modelStr d"
  "sensitivityStr (snd (Close ext d)) = sensitivityStr d"
  "silenceElapsed (snd (Close ext d)) = silenceElapsed d"
  by (simp_all add: Close_def)

lemma AudioFormat_frame:
  "AudioFormat ext d = Inr (fmt, d') \<Longrightarrow>
     modelStr d' = modelStr d \<and> sensitivityStr d' = sensitivityStr d"
  by (auto simp: AudioFormat_def Let_def initialize_frame split: option.splits)

subsection \<open>The three ways \<open>runDetection\<close> returns\<close>

lemma runDetection_cases:
  assumes "runDetection ext data d = Inr (r, d')"
  shows "(data = [] \<and> r = 0 \<and> d' = d)
       \<or> (data \<noteq> [] \<and> r \<noteq> snowboyResultSilence \<and>
            (\<exists>e e'. raw d = Some e
               \<and> RunDetection ext e data (quo64 (int (length data)) 2) = (r, e')
               \<and> d' = d\<lparr>raw := Some e', silenceElapsed := 0\<rparr>))
       \<or> (data \<noteq> [] \<and> r = snowboyResultSilence \<and>
            (\<exists>e e' e'' t. raw d = Some e
               \<and> RunDetection ext e data (quo64 (int (length data)) 2) = (r, e')
               \<and> raw d' = Some e''
               \<and> dataElapseTime (length data)
                   (SampleRate ext e'', NumChannels ext e'', BitsPerSample ext e'') = Some t
               \<and> d' = (initialize ext (d\<lparr>raw := Some e'\<rparr>))
                        \<lparr>silenceElapsed := add64 (silenceElapsed d) t\<rparr>))"
  using assms
  by (auto simp: runDetection_def AudioFormat_def Let_def initialize_frame
      split: if_splits option.splits prod.splits sum.splits)

lemma runDetection_other:
  assumes "data \<noteq> []" and "raw d = Some e"
    and "RunDetection ext e data (quo64 (int (length data)) 2) = (r, e')"
    and "r \<noteq> snowboyResultSilence"
  shows "runDetection ext data d = Inr (r, d\<lparr>raw := Some e', silenceElapsed := 0\<rparr>)"
  using assms by (simp add: runDetection_def)

lemma runDetection_frame:
  assumes "runDetection ext data d = Inr (r, d')"
  shows "modelStr d' = modelStr d \<and> sensitivityStr d' = sensitivityStr d
       \<and> handlers d' = handlers d \<and> silenceThreshold d' = silenceThreshold d
       \<and> invoked d' = invoked d \<and> (initialized d \<longrightarrow> initialized d')"
  using runDetection_cases [OF assms] by (auto simp: initialize_frame)

lemma detectAndRoute_frame:
  assumes "detectAndRoute ext data d = Inr (err, d')"
  shows "modelStr d' = modelStr d \<and> sensitivityStr d' = sensitivityStr d"
proof -
  from assms obtain r d1 where run: "runDetection ext data d = Inr (r, d1)"
    and rt: "route r d1 = (err, d')"
    by (auto simp: detectAndRoute_def split: sum.splits prod.splits)
  from rt have "d' = snd (route r d1)" by simp
  with runDetection_frame [OF run] show ?thesis by (simp add: route_frame)
qed

text \<open>The loop: induction on the reads, the buffer and the detector generalised.\<close>

lemma readLoop_frame:
  "readLoop ext bytes reads d = Some (Inr (err, d')) \<Longrightarrow>
     modelStr d' = modelStr d \<and> sensitivityStr d' = sensitivityStr d"
proof (induction reads arbitrary: bytes d)
  case Nil
  then show ?case by simp
next
  case (Cons rd reads)
  obtain got e where rd: "rd = (got, e)" by (cases rd)
  show ?case
  proof (cases e)
    case (Some x)
    with Cons.prems rd show ?thesis
      by (auto simp: Let_def split: if_splits dest: detectAndRoute_frame)
  next
    case None
    show ?thesis
    proof (cases "min (length got) (length bytes) = 0")
      case True
      with Cons.prems rd None have "readLoop ext (Read bytes got) reads d = Some (Inr (err, d'))"
        by (simp add: Let_def)
      from Cons.IH [OF this] show ?thesis .
    next
      case False
      show ?thesis
      proof (cases "detectAndRoute ext (Read bytes got) d")
        case (Inl p)
        with Cons.prems rd None False show ?thesis by (simp add: Let_def)
      next
        case (Inr x)
        obtain e1 d1 where x: "x = (e1, d1)" by (cases x)
        from Inr x have fr: "modelStr d1 = modelStr d \<and> sensitivityStr d1 = sensitivityStr d"
          by (auto dest: detectAndRoute_frame)
        show ?thesis
        proof (cases e1)
          case e1: None
          with Cons.prems rd None False Inr x
          have "readLoop ext (Read bytes got) reads d1 = Some (Inr (err, d'))"
            by (simp add: Let_def)
          from Cons.IH [OF this] fr show ?thesis by simp
        next
          case (Some y)
          with Cons.prems rd None False Inr x fr show ?thesis by (auto simp: Let_def)
        qed
      qed
    qed
  qed
qed

lemma ReadAndDetect_frame:
  "ReadAndDetect ext reads d = Some (Inr (err, d')) \<Longrightarrow>
     modelStr d' = modelStr d \<and> sensitivityStr d' = sensitivityStr d"
  unfolding ReadAndDetect_def by (drule readLoop_frame) (simp add: initialize_frame)

subsection \<open>One silent chunk\<close>

lemma silent_chunk:
  assumes init: "initialized d" and raw: "raw d = Some e"
    and hk: "fmlookup (handlers d) snowboyResultSilence = Some hk"
    and run: "RunDetection ext e c (quo64 (int (length c)) 2) = (snowboyResultSilence, e')"
    and half: "representsHalfSecond_spec ext e' c"
  shows "detectAndRoute ext c d =
           Inr (None,
             if add64 (silenceElapsed d) 500000000 < silenceThreshold d
             then d\<lparr>raw := Some e', silenceElapsed := add64 (silenceElapsed d) 500000000\<rparr>
             else d\<lparr>raw := Some e', silenceElapsed := 0,
                    invoked := invoked d @ [(Handler hk, keyword hk)]\<rparr>)"
proof -
  from half have "0 < length c"
    and t: "dataElapseTime (length c)
              (SampleRate ext e', NumChannels ext e', BitsPerSample ext e') = Some 500000000"
    using half_second_elapse [of "BitsPerSample ext e'" "length c" "SampleRate ext e'"
        "NumChannels ext e'"]
    by (simp_all add: representsHalfSecond_spec_def)
  then have c: "c \<noteq> []" by simp
  have "runDetection ext c d =
          Inr (snowboyResultSilence,
            d\<lparr>raw := Some e', silenceElapsed := add64 (silenceElapsed d) 500000000\<rparr>)"
    using c init raw run t
    by (simp add: runDetection_def AudioFormat_def initialize_def Let_def)
  then show ?thesis
    using hk by (auto simp: detectAndRoute_def route_def call_def code_defs)
qed

subsection \<open>The concrete detectors\<close>

lemma hotwordDetector_simps:
  "raw hotwordDetector = Some []" "initialized hotwordDetector"
  "modelStr hotwordDetector = ''a/b/foo.umdl''"
  "sensitivityStr hotwordDetector = ''0.50''"
  "silenceElapsed hotwordDetector = 0"
  "invoked hotwordDetector = []"
  "fmlookup (handlers hotwordDetector) 1 = Some \<lparr>Handler = Impl 0, keyword = ''foo''\<rparr>"
  "fmlookup (handlers hotwordDetector) 3 = None"
  by (simp_all add: hotwordDetector_def initialize_def Handle_def NewDetector_def NewHotword_def
      TrimRight_def fixedEngine_def len_fmempty Let_def)

lemma silenceDetector_simps:
  "initialized silenceDetector" "raw silenceDetector = Some []"
  "silenceThreshold silenceDetector = 2 * Second"
  "silenceElapsed silenceDetector = 0"
  "invoked silenceDetector = []"
  "fmlookup (handlers silenceDetector) snowboyResultSilence
     = Some \<lparr>Handler = handlerFunc 7, keyword = ''silence''\<rparr>"
  by (simp_all add: silenceDetector_def initialize_def HandleSilenceFunc_def HandleSilence_def
      NewDetector_def fixedEngine_def Let_def)

section \<open>The claims\<close>

text \<open>
  C1 (code). The Nth hotword registered by \<open>Handle\<close> is not bound to result code N for
  every interleaving with \<open>HandleSilence\<close>: \<open>Handle\<close> numbers a hotword by
  \<^verbatim>\<open>len(d.handlers) + 1\<close>, and the silence handler sits in the same map. With
  \<open>HandleSilence\<close> first, the first hotword is bound to code 2, code 1 has no handler
  (routing it gives \<open>NoHandler\<close>), and both joined strings start with a separator, so
  the model string has two comma-separated fields for one hotword. With a
  \<open>HandleSilence\<close> between two \<open>Handle\<close>s the second hotword is bound to code 3.
  Registering all hotwords before the silence handler binds them as the claim says.
\<close>

theorem Handle_counts_silence_handler:
  "(let d = Handle ext (NewHotword ''a/b/foo.umdl'' s) h
              (HandleSilence t hs (NewDetector rf))
    in fmlookup (handlers d) 1 = None
     \<and> fmlookup (handlers d) 2 = Some \<lparr>Handler = h, keyword = ''foo''\<rparr>
     \<and> route 1 d = (Some NoHandler, d)
     \<and> modelStr d = '',a/b/foo.umdl''
     \<and> sensitivityStr d = '','' @ FormatFloat ext s
     \<and> length (Split (modelStr d) (CHR '','')) = 2)
   \<and> (let d = Handle ext (NewHotword ''bar.umdl'' s) h'
              (HandleSilence t hs
                 (Handle ext (NewHotword ''a/b/foo.umdl'' s) h (NewDetector rf)))
    in fmlookup (handlers d) 1 = Some \<lparr>Handler = h, keyword = ''foo''\<rparr>
     \<and> fmlookup (handlers d) 2 = None
     \<and> fmlookup (handlers d) 3 = Some \<lparr>Handler = h', keyword = ''bar''\<rparr>
     \<and> modelStr d = ''a/b/foo.umdl,bar.umdl'')
   \<and> (let d = HandleSilence t hs
              (Handle ext (NewHotword ''bar.umdl'' s) h'
                 (Handle ext (NewHotword ''a/b/foo.umdl'' s) h (NewDetector rf)))
    in fmlookup (handlers d) 1 = Some \<lparr>Handler = h, keyword = ''foo''\<rparr>
     \<and> fmlookup (handlers d) 2 = Some \<lparr>Handler = h', keyword = ''bar''\<rparr>
     \<and> modelStr d = ''a/b/foo.umdl,bar.umdl''
     \<and> length (Split (modelStr d) (CHR '','')) = 2)"
  by (simp add: Handle_def HandleSilence_def NewDetector_def NewHotword_def TrimRight_def
      len_fmupd len_fmempty code_defs route_def Let_def)

text \<open>
  C2. A detector with a silence handler, a threshold of two seconds and nothing on its
  silence account is fed four chunks in a row. The engine answers each of the four
  calls the code makes with the silence code, and each chunk represents half a second
  of audio in the engine's format (by the specification's formula for the duration, not
  by what the code computes). The first three chunks leave the history of handler calls
  as it was and return no error; the fourth calls the silence handler with its keyword
  and leaves \<open>silenceElapsed\<close> at zero. In general, with a silence handler registered and
  \<open>silenceElapsed\<close> below the threshold, routing the silence code changes nothing and
  returns no error.
\<close>

theorem silence_fires_at_fourth_chunk:
  assumes init: "initialized d" and raw: "raw d = Some e0"
    and hk: "fmlookup (handlers d) snowboyResultSilence = Some hk"
    and thr: "silenceThreshold d = 2 * Second"
    and el: "silenceElapsed d = 0"
    and r1: "RunDetection ext e0 c1 (quo64 (int (length c1)) 2) = (snowboyResultSilence, e1)"
    and r2: "RunDetection ext e1 c2 (quo64 (int (length c2)) 2) = (snowboyResultSilence, e2)"
    and r3: "RunDetection ext e2 c3 (quo64 (int (length c3)) 2) = (snowboyResultSilence, e3)"
    and r4: "RunDetection ext e3 c4 (quo64 (int (length c4)) 2) = (snowboyResultSilence, e4)"
    and h1: "representsHalfSecond_spec ext e1 c1"
    and h2: "representsHalfSecond_spec ext e2 c2"
    and h3: "representsHalfSecond_spec ext e3 c3"
    and h4: "representsHalfSecond_spec ext e4 c4"
  shows "(\<exists>d1 d2 d3 d4.
            detectAndRoute ext c1 d = Inr (None, d1) \<and> invoked d1 = invoked d
          \<and> detectAndRoute ext c2 d1 = Inr (None, d2) \<and> invoked d2 = invoked d
          \<and> detectAndRoute ext c3 d2 = Inr (None, d3) \<and> invoked d3 = invoked d
          \<and> detectAndRoute ext c4 d3 = Inr (None, d4)
          \<and> invoked d4 = invoked d @ [(Handler hk, keyword hk)]
          \<and> silenceElapsed d4 = 0)
       \<and> (\<forall>d' :: ('a, 'e, 'g) Detector. \<forall>hk'.
            fmlookup (handlers d') snowboyResultSilence = Some hk'
            \<and> silenceElapsed d' < silenceThreshold d'
            \<longrightarrow> route snowboyResultSilence d' = (None, d'))"
proof (intro conjI allI impI)
  let ?d1 = "d\<lparr>raw := Some e1, silenceElapsed := 500000000\<rparr>"
  let ?d2 = "d\<lparr>raw := Some e2, silenceElapsed := 1000000000\<rparr>"
  let ?d3 = "d\<lparr>raw := Some e3, silenceElapsed := 1500000000\<rparr>"
  let ?d4 = "d\<lparr>raw := Some e4, silenceElapsed := 0,
    invoked := invoked d @ [(Handler hk, keyword hk)]\<rparr>"
  have s1: "detectAndRoute ext c1 d = Inr (None, ?d1)"
    using silent_chunk [OF init raw hk r1 h1] thr el
    by (simp add: add64_def wrap64_def Second_def)
  have s2: "detectAndRoute ext c2 ?d1 = Inr (None, ?d2)"
    using silent_chunk [of ?d1 e1 hk ext c2 e2] init hk r2 h2 thr
    by (simp add: add64_def wrap64_def Second_def)
  have s3: "detectAndRoute ext c3 ?d2 = Inr (None, ?d3)"
    using silent_chunk [of ?d2 e2 hk ext c3 e3] init hk r3 h3 thr
    by (simp add: add64_def wrap64_def Second_def)
  have s4: "detectAndRoute ext c4 ?d3 = Inr (None, ?d4)"
    using silent_chunk [of ?d3 e3 hk ext c4 e4] init hk r4 h4 thr
    by (simp add: add64_def wrap64_def Second_def)
  from s1 s2 s3 s4
  show "\<exists>d1 d2 d3 d4.
            detectAndRoute ext c1 d = Inr (None, d1) \<and> invoked d1 = invoked d
          \<and> detectAndRoute ext c2 d1 = Inr (None, d2) \<and> invoked d2 = invoked d
          \<and> detectAndRoute ext c3 d2 = Inr (None, d3) \<and> invoked d3 = invoked d
          \<and> detectAndRoute ext c4 d3 = Inr (None, d4)
          \<and> invoked d4 = invoked d @ [(Handler hk, keyword hk)]
          \<and> silenceElapsed d4 = 0"
    by (intro exI [of _ ?d1] exI [of _ ?d2] exI [of _ ?d3] exI [of _ ?d4]) simp
next
  fix d' :: "('a, 'e, 'g) Detector" and hk'
  assume "fmlookup (handlers d') snowboyResultSilence = Some hk'
            \<and> silenceElapsed d' < silenceThreshold d'"
  then show "route snowboyResultSilence d' = (None, d')"
    by (simp add: route_def code_defs)
qed

theorem silence_fires_at_fourth_chunk_witness:
  "initialized silenceDetector \<and> raw silenceDetector = Some []
   \<and> fmlookup (handlers silenceDetector) snowboyResultSilence
       = Some \<lparr>Handler = handlerFunc 7, keyword = ''silence''\<rparr>
   \<and> silenceThreshold silenceDetector = 2 * Second
   \<and> silenceElapsed silenceDetector = 0
   \<and> RunDetection (fixedEngine snowboyResultSilence) [] halfSecond
        (quo64 (int (length halfSecond)) 2) = (snowboyResultSilence, [(16000, 8000)])
   \<and> representsHalfSecond_spec (fixedEngine snowboyResultSilence) [(16000, 8000)] halfSecond
   \<and> durationSeconds_spec (length halfSecond) (16000, 1, 16) = 1 / 2
   \<and> (\<exists>d1 d2 d3 d4.
          detectAndRoute (fixedEngine snowboyResultSilence) halfSecond silenceDetector
            = Inr (None, d1)
        \<and> invoked d1 = []
        \<and> detectAndRoute (fixedEngine snowboyResultSilence) halfSecond d1 = Inr (None, d2)
        \<and> invoked d2 = []
        \<and> detectAndRoute (fixedEngine snowboyResultSilence) halfSecond d2 = Inr (None, d3)
        \<and> invoked d3 = []
        \<and> detectAndRoute (fixedEngine snowboyResultSilence) halfSecond d3 = Inr (None, d4)
        \<and> invoked d4 = [(handlerFunc 7, ''silence'')]
        \<and> silenceElapsed d4 = 0)
   \<and> route snowboyResultSilence silenceDetector = (None, silenceDetector)"
proof -
  let ?ext = "fixedEngine snowboyResultSilence"
  let ?hk = "\<lparr>Handler = handlerFunc (7::nat), keyword = ''silence''\<rparr>"
  let ?l1 = "[(16000, 8000)] :: (nat \<times> int) list"
  let ?l2 = "[(16000, 8000), (16000, 8000)] :: (nat \<times> int) list"
  let ?l3 = "[(16000, 8000), (16000, 8000), (16000, 8000)] :: (nat \<times> int) list"
  let ?l4 = "[(16000, 8000), (16000, 8000), (16000, 8000), (16000, 8000)]
    :: (nat \<times> int) list"
  note init = silenceDetector_simps(1) and raw = silenceDetector_simps(2)
    and thr = silenceDetector_simps(3) and el = silenceDetector_simps(4)
    and inv = silenceDetector_simps(5) and hk = silenceDetector_simps(6)
  have run: "\<And>e. RunDetection ?ext e halfSecond (quo64 (int (length halfSecond)) 2)
      = (snowboyResultSilence, e @ ?l1)"
    by (simp add: fixedEngine_def halfSecond_def quo64_def wrap64_def)
  have r1: "RunDetection ?ext [] halfSecond (quo64 (int (length halfSecond)) 2)
      = (snowboyResultSilence, ?l1)"
    and r2: "RunDetection ?ext ?l1 halfSecond (quo64 (int (length halfSecond)) 2)
      = (snowboyResultSilence, ?l2)"
    and r3: "RunDetection ?ext ?l2 halfSecond (quo64 (int (length halfSecond)) 2)
      = (snowboyResultSilence, ?l3)"
    and r4: "RunDetection ?ext ?l3 halfSecond (quo64 (int (length halfSecond)) 2)
      = (snowboyResultSilence, ?l4)"
    by (simp_all add: run)
  have secs: "durationSeconds_spec (length halfSecond) (16000, 1, 16) = 1 / 2"
    by (simp add: durationSeconds_spec_def halfSecond_def)
  have half: "\<And>e. representsHalfSecond_spec ?ext e halfSecond"
    using secs by (simp add: representsHalfSecond_spec_def fixedEngine_def halfSecond_def Second_def)
  have route: "route snowboyResultSilence silenceDetector = (None, silenceDetector)"
    using hk thr el by (simp add: route_def code_defs Second_def)
  from silence_fires_at_fourth_chunk [OF init raw hk thr el r1 r2 r3 r4 half half half half]
  have "\<exists>d1 d2 d3 d4.
          detectAndRoute ?ext halfSecond silenceDetector = Inr (None, d1)
        \<and> invoked d1 = invoked silenceDetector
        \<and> detectAndRoute ?ext halfSecond d1 = Inr (None, d2)
        \<and> invoked d2 = invoked silenceDetector
        \<and> detectAndRoute ?ext halfSecond d2 = Inr (None, d3)
        \<and> invoked d3 = invoked silenceDetector
        \<and> detectAndRoute ?ext halfSecond d3 = Inr (None, d4)
        \<and> invoked d4 = invoked silenceDetector @ [(Handler ?hk, keyword ?hk)]
        \<and> silenceElapsed d4 = 0"
    by (rule conjunct1)
  with init raw hk thr el inv route r1 half [of ?l1] secs
  show ?thesis by simp
qed

text \<open>
  C3 (code). A successful read of two bytes: the loop hands the engine the whole
  2048-byte buffer and a count of 1024 samples, not the two bytes read (one sample);
  the bytes after the second are whatever the buffer held before. The log of the
  engine shows the one call made before the reader fails. The other half of the claim
  holds: when routing fails (here the engine answers with the error code) the loop
  returns that error at once, without reading again.
\<close>

theorem ReadAndDetect_passes_whole_buffer:
  "(\<exists>d'. ReadAndDetect (fixedEngine 0) [([1, 2], None), ([], Some (ReadFailure ''closed''))]
           (NewDetector ''common.res'' :: (nat, (nat \<times> int) list, real) Detector)
         = Some (Inr (Some (ReadFailure ''closed''), d'))
       \<and> raw d' = Some [(2048, 1024)])
   \<and> (\<exists>d'. ReadAndDetect (fixedEngine snowboyResultError)
           [([1, 2], None), ([3, 4], None), ([], Some EOF)]
           (NewDetector ''common.res'' :: (nat, (nat \<times> int) list, real) Detector)
         = Some (Inr (Some SnowboyLibraryError, d'))
       \<and> raw d' = Some [(2048, 1024)])"
  by (simp add: ReadAndDetect_def initialize_def NewDetector_def fixedEngine_def Let_def
      detectAndRoute_def runDetection_def length_Read Read_Nil route_def code_defs quo64_def
      wrap64_def)

text \<open>
  C4 (code). At end of stream with no byte left over, the final pass is not a no-op on
  an empty chunk: the loop runs the engine once more on the whole 2048-byte buffer,
  which still holds the chunk already processed. With an engine that reports hotword 1
  the handler is called a second time for the same audio; with an engine that reports
  an error on a stream that is empty from the start, the loop returns that error
  instead of \<^verbatim>\<open>nil\<close>. The source's own comment on this branch reads
  \<^verbatim>\<open>// Run detection on remaining bytes\<close>.
\<close>

theorem ReadAndDetect_EOF_reruns_buffer:
  "(\<exists>d'. ReadAndDetect (fixedEngine 1) [(replicate 2048 7, None), ([], Some EOF)]
           (Handle (fixedEngine 1) (NewHotword ''a/b/foo.umdl'' 0.5) (Impl 0)
              (NewDetector ''common.res'' :: (nat, (nat \<times> int) list, real) Detector))
         = Some (Inr (None, d'))
       \<and> raw d' = Some [(2048, 1024), (2048, 1024)]
       \<and> invoked d' = [(Impl 0, ''foo''), (Impl 0, ''foo'')])
   \<and> (\<exists>d'. ReadAndDetect (fixedEngine snowboyResultError) [([], Some EOF)]
           (NewDetector ''common.res'' :: (nat, (nat \<times> int) list, real) Detector)
         = Some (Inr (Some SnowboyLibraryError, d'))
       \<and> raw d' = Some [(2048, 1024)])"
  by (simp add: ReadAndDetect_def initialize_def NewDetector_def fixedEngine_def Let_def
      detectAndRoute_def runDetection_def length_Read Read_Nil route_def code_defs quo64_def
      wrap64_def Handle_def len_fmempty NewHotword_def TrimRight_def call_def)

text \<open>
  C5 (code). The auto-derived name is not the suffix-stripped final segment for every
  model identifier: \<^verbatim>\<open>strings.TrimRight\<close> takes a set of characters, so it also removes
  the characters \<open>.\<close>, \<open>u\<close>, \<open>m\<close>, \<open>d\<close>, \<open>l\<close> at the end of the base name. For
  \<open>model.umdl\<close> the code yields \<open>mode\<close> where stripping the extension yields \<open>model\<close>.
  The two examples of the specification do come out as stated.
\<close>

theorem NewHotword_trims_cutset:
  "Name (NewHotword ''model.umdl'' s) = ''mode''
   \<and> deriveName_spec ''model.umdl'' = ''model''
   \<and> Name (NewHotword ''a/b/foo.umdl'' s) = ''foo''
   \<and> Name (NewHotword ''bar.umdl'' s) = ''bar''"
  by (simp add: NewHotword_def TrimRight_def deriveName_spec_def stripSuffix_def
      finalSegment_def)

text \<open>
  C6 (as stated). Processing a chunk whose result is not the silence code does not
  always set \<open>silenceElapsed\<close> to zero: for an empty chunk \<open>runDetection\<close> returns 0
  before it touches the detector, and \<open>route\<close> does nothing on 0, so a detector with
  1.5 s on its silence account keeps them.
\<close>

theorem empty_chunk_keeps_silenceElapsed:
  "runDetection (fixedEngine 0) [] armed = Inr (0, armed)
   \<and> (0 :: int) \<noteq> snowboyResultSilence
   \<and> detectAndRoute (fixedEngine 0) [] armed = Inr (None, armed)
   \<and> silenceElapsed armed = 1500000000"
  by (simp add: runDetection_def detectAndRoute_def route_def code_defs armed_def)

text \<open>
  C6 (amended). For a chunk that is not empty, on a detector that holds an engine: when
  the engine's result is not the silence code, \<open>runDetection\<close> returns it with
  \<open>silenceElapsed\<close> set to zero and without calling a handler, and \<open>silenceElapsed\<close> is
  still zero after routing that result. For an empty chunk \<open>runDetection\<close> returns 0
  and leaves the detector as it was. Routing result 0 calls no handler, changes nothing
  and returns no error.
\<close>

theorem nonsilence_resets_silenceElapsed:
  "(data \<noteq> [] \<and> raw d = Some e
      \<and> RunDetection ext e data (quo64 (int (length data)) 2) = (r, e')
      \<and> r \<noteq> snowboyResultSilence
    \<longrightarrow> (\<exists>d1. runDetection ext data d = Inr (r, d1) \<and> silenceElapsed d1 = 0
             \<and> invoked d1 = invoked d \<and> silenceElapsed (snd (route r d1)) = 0))
   \<and> runDetection ext [] d = Inr (snowboyResultNoDetection, d)
   \<and> route snowboyResultNoDetection d = (None, d)"
proof (intro conjI impI)
  assume a: "data \<noteq> [] \<and> raw d = Some e
      \<and> RunDetection ext e data (quo64 (int (length data)) 2) = (r, e')
      \<and> r \<noteq> snowboyResultSilence"
  let ?d1 = "d\<lparr>raw := Some e', silenceElapsed := 0\<rparr>"
  from a have run: "runDetection ext data d = Inr (r, ?d1)"
    by (simp add: runDetection_other)
  moreover have "silenceElapsed (snd (route r ?d1)) = 0"
    using route_silenceElapsed [of r ?d1] by auto
  ultimately show "\<exists>d1. runDetection ext data d = Inr (r, d1) \<and> silenceElapsed d1 = 0
             \<and> invoked d1 = invoked d \<and> silenceElapsed (snd (route r d1)) = 0"
    by (intro exI [of _ ?d1]) simp
next
  show "runDetection ext [] d = Inr (snowboyResultNoDetection, d)"
    by (simp add: runDetection_def code_defs)
next
  show "route snowboyResultNoDetection d = (None, d)"
    by (simp add: route_def code_defs)
qed

theorem nonsilence_resets_silenceElapsed_witness:
  "[0, 0] \<noteq> ([] :: byte list)
   \<and> raw (hotwordDetector\<lparr>silenceElapsed := 1500000000\<rparr>) = Some []
   \<and> RunDetection (fixedEngine 1) [] [0, 0] (quo64 (int (length [0 :: byte, 0])) 2)
       = (1, [(2, 1)])
   \<and> 1 \<noteq> snowboyResultSilence
   \<and> (\<exists>d1. runDetection (fixedEngine 1) [0, 0] (hotwordDetector\<lparr>silenceElapsed := 1500000000\<rparr>)
               = Inr (1, d1)
          \<and> silenceElapsed d1 = 0 \<and> invoked d1 = [] \<and> silenceElapsed (snd (route 1 d1)) = 0)"
proof -
  let ?d = "hotwordDetector\<lparr>silenceElapsed := 1500000000\<rparr>"
  have h: "[0, 0] \<noteq> ([] :: byte list) \<and> raw ?d = Some []
      \<and> RunDetection (fixedEngine 1) [] [0, 0] (quo64 (int (length [0 :: byte, 0])) 2)
          = (1, [(2, 1)])
      \<and> 1 \<noteq> snowboyResultSilence"
    by (simp add: hotwordDetector_simps fixedEngine_def quo64_def wrap64_def code_defs)
  from nonsilence_resets_silenceElapsed [of "[0, 0]" ?d "[]" "fixedEngine 1" 1 "[(2, 1)]"] h
  show ?thesis by (simp add: hotwordDetector_simps)
qed

text \<open>
  C7. For a positive result code, and for the silence code, with no handler bound to it,
  \<open>route\<close> returns \<open>NoHandler\<close> and leaves the detector as it was; for the error code it
  returns \<open>SnowboyLibraryError\<close>. A new detector has no silence handler, and \<open>Handle\<close>
  never binds the silence code, so a detector on which \<open>HandleSilence\<close> was never called
  has none.
\<close>

theorem route_unbound_NoHandler:
  fixes d :: "('a, 'e, 'g::one) Detector"
  shows "((0 < K \<or> K = snowboyResultSilence) \<and> fmlookup (handlers d) K = None
      \<longrightarrow> route K d = (Some NoHandler, d))
   \<and> route snowboyResultError d = (Some SnowboyLibraryError, d)
   \<and> fmlookup (handlers (NewDetector rf :: ('a, 'e, 'g) Detector)) snowboyResultSilence = None
   \<and> fmlookup (handlers (Handle ext hw h d)) snowboyResultSilence
       = fmlookup (handlers d) snowboyResultSilence"
  by (auto simp: route_def code_defs NewDetector_def Handle_def Let_def)

theorem route_unbound_NoHandler_witness:
  "(0 :: int) < 3 \<and> fmlookup (handlers hotwordDetector) 3 = None
   \<and> route 3 hotwordDetector = (Some NoHandler, hotwordDetector)"
  using route_unbound_NoHandler [where K = 3 and d = hotwordDetector and rf = "''common.res''"
      and ext = "fixedEngine 1" and hw = "NewHotword ''bar.umdl'' 0.5" and h = "Impl 1"]
  by (simp add: hotwordDetector_simps)

text \<open>
  C8. A new detector is not initialized, registering handlers does not initialize it, and
  \<open>Close\<close> on a detector that is not initialized returns an error and changes nothing. The
  first \<open>Close\<close> on an initialized detector returns no error and marks it uninitialized, so
  a second \<open>Close\<close> returns the error.
\<close>

theorem Close_lifecycle:
  fixes d :: "('a, 'e, 'g::one) Detector"
  shows "\<not> initialized (NewDetector rf :: ('a, 'e, 'g) Detector)
   \<and> Close ext (NewDetector rf :: ('a, 'e, 'g) Detector) = (Some NotInitialize, NewDetector rf)
   \<and> initialized (Handle ext hw h d) = initialized d
   \<and> initialized (HandleSilence t h d) = initialized d
   \<and> (\<not> initialized d \<longrightarrow> Close ext d = (Some NotInitialize, d))
   \<and> (initialized d \<longrightarrow>
        fst (Close ext d) = None \<and> \<not> initialized (snd (Close ext d))
        \<and> fst (Close ext (snd (Close ext d))) = Some NotInitialize)"
  by (simp add: NewDetector_def Handle_def HandleSilence_def Close_def Let_def)

theorem Close_lifecycle_witness:
  "initialized hotwordDetector
   \<and> fst (Close (fixedEngine 1) hotwordDetector) = None
   \<and> \<not> initialized (snd (Close (fixedEngine 1) hotwordDetector))
   \<and> fst (Close (fixedEngine 1) (snd (Close (fixedEngine 1) hotwordDetector)))
       = Some NotInitialize"
  using Close_lifecycle [where d = hotwordDetector and ext = "fixedEngine 1"
      and rf = "''common.res''" and hw = "NewHotword ''bar.umdl'' 0.5" and h = "Impl 1" and t = 0]
  by (simp add: hotwordDetector_simps)

text \<open>
  C9. \<open>HandleSilence\<close> and \<open>HandleSilenceFunc\<close> change nothing but the handler map and
  the silence threshold; in particular the joined model string and the joined
  sensitivity string stay as they were. \<open>Handle\<close> and \<open>HandleFunc\<close> append to both
  strings: a separator when the map is not empty, then the model, respectively the
  formatted sensitivity. No other operation (\<open>Close\<close>, \<open>initialize\<close>, \<open>AudioFormat\<close>,
  \<open>route\<close>, \<open>runDetection\<close>, \<open>ReadAndDetect\<close>) changes either string.
\<close>

theorem joined_strings_frame:
  "(HandleSilence t h d)\<lparr>handlers := handlers d, silenceThreshold := silenceThreshold d\<rparr> = d
   \<and> (HandleSilenceFunc t f d)\<lparr>handlers := handlers d, silenceThreshold := silenceThreshold d\<rparr>
       = d
   \<and> modelStr (HandleSilence t h d) = modelStr d
   \<and> sensitivityStr (HandleSilence t h d) = sensitivityStr d
   \<and> modelStr (HandleSilenceFunc t f d) = modelStr d
   \<and> sensitivityStr (HandleSilenceFunc t f d) = sensitivityStr d
   \<and> modelStr (Handle ext hw h d)
       = modelStr d @ (if 0 < len (handlers d) then '','' else []) @ Model hw
   \<and> sensitivityStr (Handle ext hw h d)
       = sensitivityStr d @ (if 0 < len (handlers d) then '','' else [])
           @ FormatFloat ext (Sensitivity hw)
   \<and> modelStr (HandleFunc ext hw f d)
       = modelStr d @ (if 0 < len (handlers d) then '','' else []) @ Model hw
   \<and> sensitivityStr (HandleFunc ext hw f d)
       = sensitivityStr d @ (if 0 < len (handlers d) then '','' else [])
           @ FormatFloat ext (Sensitivity hw)
   \<and> modelStr (snd (Close ext d)) = modelStr d
   \<and> sensitivityStr (snd (Close ext d)) = sensitivityStr d
   \<and> modelStr (initialize ext d) = modelStr d
   \<and> sensitivityStr (initialize ext d) = sensitivityStr d
   \<and> modelStr (snd (route r d)) = modelStr d
   \<and> sensitivityStr (snd (route r d)) = sensitivityStr d
   \<and> (AudioFormat ext d = Inr (fmt, d1) \<longrightarrow>
        modelStr d1 = modelStr d \<and> sensitivityStr d1 = sensitivityStr d)
   \<and> (runDetection ext data d = Inr (r', d2) \<longrightarrow>
        modelStr d2 = modelStr d \<and> sensitivityStr d2 = sensitivityStr d)
   \<and> (ReadAndDetect ext reads d = Some (Inr (err, d3)) \<longrightarrow>
        modelStr d3 = modelStr d \<and> sensitivityStr d3 = sensitivityStr d)"
proof (intro conjI impI)
  assume "AudioFormat ext d = Inr (fmt, d1)"
  then show "modelStr d1 = modelStr d" and "sensitivityStr d1 = sensitivityStr d"
    by (simp_all add: AudioFormat_frame)
next
  assume "runDetection ext data d = Inr (r', d2)"
  then show "modelStr d2 = modelStr d" and "sensitivityStr d2 = sensitivityStr d"
    by (simp_all add: runDetection_frame)
next
  assume "ReadAndDetect ext reads d = Some (Inr (err, d3))"
  then show "modelStr d3 = modelStr d" and "sensitivityStr d3 = sensitivityStr d"
    by (simp_all add: ReadAndDetect_frame)
qed (simp_all add: HandleSilence_frame HandleSilenceFunc_def HandleFunc_def Handle_strings
    Close_frame initialize_frame route_frame, simp_all add: HandleSilence_def)

theorem joined_strings_frame_witness:
  "(\<exists>d1. AudioFormat (fixedEngine 1) hotwordDetector = Inr ((16000, 1, 16), d1)
        \<and> modelStr d1 = ''a/b/foo.umdl'' \<and> sensitivityStr d1 = ''0.50'')
   \<and> (\<exists>d2. runDetection (fixedEngine 1) [0, 0] hotwordDetector = Inr (1, d2)
        \<and> modelStr d2 = ''a/b/foo.umdl'' \<and> sensitivityStr d2 = ''0.50'')
   \<and> (\<exists>d3. ReadAndDetect (fixedEngine 1) [([], Some EOF)] hotwordDetector
               = Some (Inr (None, d3))
        \<and> modelStr d3 = ''a/b/foo.umdl'' \<and> sensitivityStr d3 = ''0.50'')"
proof -
  let ?E = "fixedEngine 1"
  let ?d2 = "hotwordDetector\<lparr>raw := Some [(2, 1)], silenceElapsed := 0\<rparr>"
  let ?d3 = "hotwordDetector\<lparr>raw := Some [(2048, 1024)], silenceElapsed := 0,
    invoked := [(Impl 0, ''foo'')]\<rparr>"
  have fmt: "AudioFormat ?E hotwordDetector = Inr ((16000, 1, 16), hotwordDetector)"
    by (simp add: AudioFormat_def initialize_id hotwordDetector_simps fixedEngine_def)
  have run: "runDetection ?E [0, 0] hotwordDetector = Inr (1, ?d2)"
    by (simp add: runDetection_def hotwordDetector_simps fixedEngine_def quo64_def wrap64_def
        code_defs)
  have rd: "ReadAndDetect ?E [([], Some EOF)] hotwordDetector = Some (Inr (None, ?d3))"
    by (simp add: ReadAndDetect_def initialize_id hotwordDetector_simps detectAndRoute_def
        runDetection_def length_Read Read_Nil fixedEngine_def quo64_def wrap64_def code_defs
        route_def call_def)
  from joined_strings_frame [where d = hotwordDetector and ext = ?E and fmt = "(16000, 1, 16)"
      and ?d1.0 = hotwordDetector and data = "[0, 0]" and r' = 1 and ?d2.0 = ?d2
      and reads = "[([], Some EOF)]" and err = None and ?d3.0 = ?d3
      and t = 0 and h = "Impl 1" and f = 1 and hw = "NewHotword ''bar.umdl'' 0.5" and r = 0]
    fmt run rd
  show ?thesis by (simp add: hotwordDetector_simps)
qed

text \<open>
  C10. After \<open>route\<close> the field \<open>silenceElapsed\<close> is what it was or zero, for every
  detector and result code. When \<open>runDetection\<close> returns the silence code it has added
  the duration of the chunk, computed from the chunk's length and the engine's audio
  format, to \<open>silenceElapsed\<close>; when it returns another code the field is what it was
  or zero. Registration, \<open>initialize\<close> and \<open>Close\<close> do not touch the field.
\<close>

theorem route_never_accumulates:
  "(silenceElapsed (snd (route r d)) = silenceElapsed d \<or> silenceElapsed (snd (route r d)) = 0)
   \<and> (runDetection ext data d = Inr (r, d') \<longrightarrow>
        (if r = snowboyResultSilence
         then \<exists>e t. raw d' = Some e
                \<and> dataElapseTime (length data)
                    (SampleRate ext e, NumChannels ext e, BitsPerSample ext e) = Some t
                \<and> silenceElapsed d' = add64 (silenceElapsed d) t
         else silenceElapsed d' = silenceElapsed d \<or> silenceElapsed d' = 0))
   \<and> silenceElapsed (Handle ext hw h d) = silenceElapsed d
   \<and> silenceElapsed (HandleSilence thr h d) = silenceElapsed d
   \<and> silenceElapsed (initialize ext d) = silenceElapsed d
   \<and> silenceElapsed (snd (Close ext d)) = silenceElapsed d"
proof (intro conjI impI)
  show "silenceElapsed (snd (route r d)) = silenceElapsed d
      \<or> silenceElapsed (snd (route r d)) = 0"
    by (rule route_silenceElapsed)
next
  assume "runDetection ext data d = Inr (r, d')"
  from runDetection_cases [OF this]
  show "if r = snowboyResultSilence
         then \<exists>e t. raw d' = Some e
                \<and> dataElapseTime (length data)
                    (SampleRate ext e, NumChannels ext e, BitsPerSample ext e) = Some t
                \<and> silenceElapsed d' = add64 (silenceElapsed d) t
         else silenceElapsed d' = silenceElapsed d \<or> silenceElapsed d' = 0"
    by (elim disjE conjE exE) (simp_all add: code_defs initialize_frame)
qed (simp_all add: Handle_def HandleSilence_def initialize_def Close_def Let_def)

theorem route_never_accumulates_witness:
  "runDetection (fixedEngine snowboyResultSilence) halfSecond silenceDetector
     = Inr (snowboyResultSilence,
         silenceDetector\<lparr>raw := Some [(16000, 8000)], silenceElapsed := 500000000\<rparr>)
   \<and> (\<exists>e t. raw (silenceDetector\<lparr>raw := Some [(16000, 8000)], silenceElapsed := 500000000\<rparr>)
              = Some e
          \<and> dataElapseTime (length halfSecond)
              (SampleRate (fixedEngine snowboyResultSilence) e,
               NumChannels (fixedEngine snowboyResultSilence) e,
               BitsPerSample (fixedEngine snowboyResultSilence) e) = Some t
          \<and> silenceElapsed
              (silenceDetector\<lparr>raw := Some [(16000, 8000)], silenceElapsed := 500000000\<rparr>)
            = add64 (silenceElapsed silenceDetector) t)"
proof -
  let ?d' = "silenceDetector\<lparr>raw := Some [(16000, 8000)], silenceElapsed := 500000000\<rparr>"
  have run: "runDetection (fixedEngine snowboyResultSilence) halfSecond silenceDetector
        = Inr (snowboyResultSilence, ?d')"
    by (simp add: runDetection_def silenceDetector_def halfSecond_def initialize_def
        HandleSilenceFunc_def HandleSilence_def NewDetector_def fixedEngine_def Let_def
        AudioFormat_def dataElapseTime_def mul64_def quo64_def wrap64_def add64_def Second_def
        code_defs)
  with route_never_accumulates [where r = snowboyResultSilence and d = silenceDetector
      and d' = ?d' and ext = "fixedEngine snowboyResultSilence" and data = halfSecond
      and hw = "NewHotword ''bar.umdl'' 0.5" and h = "Impl 1" and thr = 0]
  show ?thesis by simp
qed

end
